theory Spec2Isabelle
  imports Complex_Main
begin

section \<open>JavaScript numbers\<close>

text \<open>
  A JavaScript \<^verbatim>\<open>number\<close> is modelled as a real: the arithmetic is the ideal one, and
  \<^verbatim>\<open>NaN\<close>, the infinities and the rounding of IEEE doubles are outside the model.
  \<^verbatim>\<open>Math.max\<close>, \<^verbatim>\<open>Math.min\<close> and \<^verbatim>\<open>Math.abs\<close> are \<open>max\<close>, \<open>min\<close> and \<open>abs\<close>.
  \<^verbatim>\<open>Math.round\<close> rounds a half towards plus infinity, \<^verbatim>\<open>Math.round(-2.5) = -2\<close>.
  A quotient whose divisor is zero is \<open>0\<close> in HOL and an infinity or \<^verbatim>\<open>NaN\<close> in
  JavaScript; the statements below that depend on the value of a quotient are made
  where its divisor is not zero.
\<close>

definition Math_round :: "real \<Rightarrow> real" where
  "Math_round x = of_int \<lfloor>x + 1 / 2\<rfloor>"

definition Math_floor :: "real \<Rightarrow> real" where
  "Math_floor x = of_int \<lfloor>x\<rfloor>"

definition Math_ceil :: "real \<Rightarrow> real" where
  "Math_ceil x = of_int \<lceil>x\<rceil>"

section \<open>App.tsx: the shared state and its handlers\<close>

text \<open>\<^verbatim>\<open>interface Annotation { id: string; value: number; color: string }\<close>\<close>

record annotation =
  id_ann :: string
  value_ann :: real
  color_ann :: string

definition ANNOTATION_COLORS :: "string list" where
  "ANNOTATION_COLORS =
     [''#10B981'', ''#8B5CF6'', ''#F59E0B'', ''#EF4444'',
      ''#06B6D4'', ''#84CC16'', ''#F97316'', ''#EC4899'']"

text \<open>
  The state of \<^verbatim>\<open>App\<close>: the two series (created once, never written) and the four
  \<^verbatim>\<open>useState\<close> cells.
\<close>

record app =
  data1 :: "real list"
  data2 :: "real list"
  annotations :: "annotation list"
  currentPosition :: real
  zoom :: real
  panX :: real

definition handleAnnotationDrag :: "app \<Rightarrow> string \<Rightarrow> real \<Rightarrow> app" where
  "handleAnnotationDrag a i v =
     a\<lparr>annotations :=
         map (\<lambda>an. if id_ann an = i
                    then an\<lparr>value_ann :=
                           max 0 (min (real (length (data1 a)) - 1) (Math_round v))\<rparr>
                    else an)
             (annotations a)\<rparr>"

definition handleCurrentPositionDrag :: "app \<Rightarrow> real \<Rightarrow> app" where
  "handleCurrentPositionDrag a v =
     a\<lparr>currentPosition := max 0 (min (real (length (data1 a)) - 1) (Math_round v))\<rparr>"

text \<open>
  \<^verbatim>\<open>handleAddAnnotation\<close>; \<open>now\<close> is the text of \<^verbatim>\<open>Date.now()\<close>, which the
  identifier embeds.
\<close>

definition handleAddAnnotation :: "app \<Rightarrow> string \<Rightarrow> app" where
  "handleAddAnnotation a now =
     (let visibleDataPoints = Math_ceil (real (length (data1 a)) / zoom a);
          startIndex = Math_floor (panX a * (real (length (data1 a)) - visibleDataPoints));
          centerPosition = startIndex + Math_floor (visibleDataPoints / 2);
          newAnnotation =
            \<lparr>id_ann = ''annotation-'' @ now,
             value_ann = centerPosition,
             color_ann =
               ANNOTATION_COLORS ! (length (annotations a) mod length ANNOTATION_COLORS)\<rparr>
      in a\<lparr>annotations := annotations a @ [newAnnotation]\<rparr>)"

text \<open>
  \<^verbatim>\<open>handleInteractiveZoom\<close>. The first definition gives the values handed to
  \<^verbatim>\<open>setZoom\<close> and \<^verbatim>\<open>setPanX\<close>, or \<open>None\<close> for the early return that writes nothing.
\<close>

definition handleInteractiveZoom_writes :: "app \<Rightarrow> real \<Rightarrow> real \<Rightarrow> (real \<times> real) option" where
  "handleInteractiveZoom_writes a delta centerX =
     (let zoomFactor = (if delta > 0 then 1.2 else 0.8);
          newZoom = max 1 (min 10 (zoom a * zoomFactor))
      in if newZoom = zoom a then None
         else
           let visibleDataPoints = Math_ceil (real (length (data1 a)) / zoom a);
               newVisibleDataPoints = Math_ceil (real (length (data1 a)) / newZoom);
               currentStartIndex =
                 Math_floor (panX a * max 1 (real (length (data1 a)) - visibleDataPoints));
               cursorRelativePosition = (centerX - currentStartIndex) / visibleDataPoints;
               newStartIndex =
                 max 0 (min (real (length (data1 a)) - newVisibleDataPoints)
                            (centerX - newVisibleDataPoints * cursorRelativePosition));
               maxStartIndex = max 1 (real (length (data1 a)) - newVisibleDataPoints);
               newPanX = (if maxStartIndex > 0 then newStartIndex / maxStartIndex else 0)
           in Some (newZoom, max 0 (min 1 newPanX)))"

definition handleInteractiveZoom :: "app \<Rightarrow> real \<Rightarrow> real \<Rightarrow> app" where
  "handleInteractiveZoom a delta centerX =
     (case handleInteractiveZoom_writes a delta centerX of
        None \<Rightarrow> a
      | Some (newZoom, newPanX) \<Rightarrow> a\<lparr>zoom := newZoom, panX := newPanX\<rparr>)"

definition handleInteractivePan :: "app \<Rightarrow> real \<Rightarrow> app" where
  "handleInteractivePan a deltaX =
     (let visibleDataPoints = Math_ceil (real (length (data1 a)) / zoom a);
          maxStartIndex = max 0 (real (length (data1 a)) - visibleDataPoints)
      in if maxStartIndex \<le> 0 then a
         else
           let currentStartIndex = Math_floor (panX a * maxStartIndex);
               newStartIndex = max 0 (min maxStartIndex (currentStartIndex + deltaX));
               newPanX = newStartIndex / maxStartIndex
           in a\<lparr>panX := newPanX\<rparr>)"

definition handleReset :: "app \<Rightarrow> app" where
  "handleReset a = a\<lparr>zoom := 2, panX := 0.5, currentPosition := 250\<rparr>"

section \<open>LineChart.tsx: the viewport of a chart\<close>

text \<open>
  A chart receives the series \<open>d\<close> it draws and the shared \<open>zoom\<close> and \<open>panX\<close>; the
  three constants below are computed at every render and bound the x axis.
\<close>

definition visibleDataPoints :: "real list \<Rightarrow> real \<Rightarrow> real" where
  "visibleDataPoints d z = Math_ceil (real (length d) / z)"

definition startIndex :: "real list \<Rightarrow> real \<Rightarrow> real \<Rightarrow> real" where
  "startIndex d z p = Math_floor (p * (real (length d) - visibleDataPoints d z))"

definition endIndex :: "real list \<Rightarrow> real \<Rightarrow> real \<Rightarrow> real" where
  "endIndex d z p = startIndex d z p + visibleDataPoints d z"

section \<open>LineChart.tsx: the gesture state of a chart\<close>

text \<open>
  What a handler reads from the rendering library: the left edge of the canvas
  (\<^verbatim>\<open>getBoundingClientRect().left\<close>), the x scale's \<^verbatim>\<open>getValueForPixel\<close>, which may
  fail to resolve a pixel (\<open>None\<close>), and the chart area, which may be absent. The chart
  itself is \<open>None\<close> while \<^verbatim>\<open>chartRef.current\<close> is null.
\<close>

record chartArea_t =
  area_left :: real
  area_right :: real

record chart =
  rect_left :: real
  getValueForPixel :: "real \<Rightarrow> real option"
  chartArea :: "chartArea_t option"

record mouse_event =
  clientX :: real
  clientY :: real

record wheel_event =
  wheel_clientX :: real
  ctrlKey :: bool
  deltaY :: real

datatype marker_type = Current_type | Annotation_type

datatype marker_name = Current_Position_name | Annotation_name nat

text \<open>
  The object \<^verbatim>\<open>getClosestAnnotation\<close> returns; \<open>Annotation_name k\<close> stands for the
  text \<^verbatim>\<open>Annotation k\<close>.
\<close>

record closest =
  type_c :: marker_type
  id_c :: string
  name_c :: marker_name
  position_c :: real
  value_c :: real

datatype cursor_style = Cursor_default | Cursor_grab | Cursor_grabbing

text \<open>
  The tooltip; its text is rendered from the marker under the pointer, and the model
  keeps that marker in place of the text (\<open>None\<close> for the empty text).
\<close>

record tooltip_t =
  tip_visible :: bool
  tip_x :: real
  tip_y :: real
  tip_content :: "closest option"

text \<open>
  The \<^verbatim>\<open>useState\<close> cells of one chart, and the cursor style of its canvas.
\<close>

record view =
  dragging :: "closest option"
  tooltip :: tooltip_t
  isPanning :: bool
  panStartX :: real
  cursor :: cursor_style

definition tooltip_hidden :: tooltip_t where
  "tooltip_hidden = \<lparr>tip_visible = False, tip_x = 0, tip_y = 0, tip_content = None\<rparr>"

text \<open>
  \<^verbatim>\<open>data[i] || 0\<close>: the sample at \<open>i\<close> when \<open>i\<close> is an index of the series, and \<open>0\<close>
  otherwise.
\<close>

definition data_or_0 :: "real list \<Rightarrow> real \<Rightarrow> real" where
  "data_or_0 d i =
     (if i = of_int \<lfloor>i\<rfloor> \<and> 0 \<le> i \<and> i < real (length d) then d ! nat \<lfloor>i\<rfloor> else 0)"

text \<open>
  The loop of \<^verbatim>\<open>getClosestAnnotation\<close> over \<^verbatim>\<open>annotations.entries()\<close>, from position
  \<open>index\<close> on.
\<close>

fun closestAmong :: "real list \<Rightarrow> real \<Rightarrow> nat \<Rightarrow> annotation list \<Rightarrow> closest option" where
  "closestAmong d dataX index [] = None"
| "closestAmong d dataX index (an # rest) =
     (if \<bar>value_ann an - dataX\<bar> < 10
      then Some \<lparr>type_c = Annotation_type, id_c = id_ann an,
                 name_c = Annotation_name (index + 1),
                 position_c = value_ann an, value_c = data_or_0 d (value_ann an)\<rparr>
      else closestAmong d dataX (index + 1) rest)"

definition getClosestAnnotation :: "chart option \<Rightarrow> real list \<Rightarrow> app \<Rightarrow> real \<Rightarrow> closest option" where
  "getClosestAnnotation ch d a x =
     (case ch of
        None \<Rightarrow> None
      | Some c \<Rightarrow>
          (case getValueForPixel c x of
             None \<Rightarrow> None
           | Some dataX \<Rightarrow>
               if \<bar>currentPosition a - dataX\<bar> < 10
               then Some \<lparr>type_c = Current_type, id_c = ''currentPosition'',
                          name_c = Current_Position_name,
                          position_c = currentPosition a,
                          value_c = data_or_0 d (currentPosition a)\<rparr>
               else closestAmong d dataX 0 (annotations a)))"

text \<open>
  The handlers of a chart act on the shared state and on the chart's own state. Each
  reads the values of the last render; within one event the handlers that run one after
  the other write disjoint cells and read none the earlier one wrote, so passing the
  state along gives what the batched updates give.
\<close>

definition handleMouseDown ::
  "chart option \<Rightarrow> real list \<Rightarrow> mouse_event \<Rightarrow> app \<times> view \<Rightarrow> app \<times> view" where
  "handleMouseDown ch d ev s =
     (case ch of
        None \<Rightarrow> s
      | Some c \<Rightarrow>
          (let x = clientX ev - rect_left c
           in case getClosestAnnotation ch d (fst s) x of
                Some cl \<Rightarrow> (fst s, (snd s)\<lparr>dragging := Some cl, cursor := Cursor_grabbing\<rparr>)
              | None \<Rightarrow> s))"

definition handleMouseMove ::
  "chart option \<Rightarrow> real list \<Rightarrow> mouse_event \<Rightarrow> app \<times> view \<Rightarrow> app \<times> view" where
  "handleMouseMove ch d ev s =
     (case ch of
        None \<Rightarrow> s
      | Some c \<Rightarrow>
          (let x = clientX ev - rect_left c
           in case dragging (snd s) of
                Some dr \<Rightarrow>
                  (let a' =
                     (case getValueForPixel c x of
                        None \<Rightarrow> fst s
                      | Some dataX \<Rightarrow>
                          (let newValue =
                                 max 0 (min (real (length d) - 1) (Math_round dataX))
                           in if type_c dr = Current_type
                              then handleCurrentPositionDrag (fst s) newValue
                              else if type_c dr = Annotation_type \<and> id_c dr \<noteq> []
                              then handleAnnotationDrag (fst s) (id_c dr) newValue
                              else fst s))
                   in (a', (snd s)\<lparr>tooltip := tooltip_hidden\<rparr>))
              | None \<Rightarrow>
                  (case getClosestAnnotation ch d (fst s) x of
                     Some cl \<Rightarrow>
                       (fst s,
                        (snd s)\<lparr>cursor := Cursor_grab,
                                tooltip := \<lparr>tip_visible = True, tip_x = clientX ev,
                                            tip_y = clientY ev - 10,
                                            tip_content = Some cl\<rparr>\<rparr>)
                   | None \<Rightarrow>
                       (fst s, (snd s)\<lparr>cursor := Cursor_default,
                                       tooltip := tooltip_hidden\<rparr>))))"

definition handleMouseUp :: "chart option \<Rightarrow> view \<Rightarrow> view" where
  "handleMouseUp ch v =
     (case ch of
        None \<Rightarrow> v
      | Some c \<Rightarrow>
          (let v' = (if dragging v \<noteq> None
                     then v\<lparr>dragging := None, cursor := Cursor_default\<rparr> else v)
           in v'\<lparr>tooltip := tooltip_hidden\<rparr>))"

definition handleMouseLeave :: "chart option \<Rightarrow> view \<Rightarrow> view" where
  "handleMouseLeave ch v =
     (case ch of
        None \<Rightarrow> v
      | Some c \<Rightarrow> v\<lparr>dragging := None, cursor := Cursor_default, tooltip := tooltip_hidden\<rparr>)"

definition handleWheel :: "chart option \<Rightarrow> wheel_event \<Rightarrow> app \<Rightarrow> app" where
  "handleWheel ch ev a =
     (if \<not> ctrlKey ev then a
      else case ch of
             None \<Rightarrow> a
           | Some c \<Rightarrow>
               (let x = wheel_clientX ev - rect_left c
                in case getValueForPixel c x of
                     Some dataX \<Rightarrow> handleInteractiveZoom a (- deltaY ev) dataX
                   | None \<Rightarrow> a))"

definition handlePanStart ::
  "chart option \<Rightarrow> real list \<Rightarrow> mouse_event \<Rightarrow> app \<times> view \<Rightarrow> app \<times> view" where
  "handlePanStart ch d ev s =
     (case ch of
        None \<Rightarrow> s
      | Some c \<Rightarrow>
          (let x = clientX ev - rect_left c
           in case getClosestAnnotation ch d (fst s) x of
                None \<Rightarrow>
                  (fst s, (snd s)\<lparr>isPanning := True, panStartX := clientX ev,
                                  cursor := Cursor_grabbing\<rparr>)
              | Some cl \<Rightarrow> s))"

definition handlePanMove ::
  "chart option \<Rightarrow> real list \<Rightarrow> mouse_event \<Rightarrow> app \<times> view \<Rightarrow> app \<times> view" where
  "handlePanMove ch d ev s =
     (if isPanning (snd s)
      then
        (let deltaPixels = clientX ev - panStartX (snd s)
         in case ch of
              None \<Rightarrow> s
            | Some c \<Rightarrow>
                (case chartArea c of
                   None \<Rightarrow> s
                 | Some area \<Rightarrow>
                     (let chartWidth = area_right area - area_left area;
                          visibleDataPoints = Math_ceil (real (length d) / zoom (fst s));
                          pixelsPerDataPoint = chartWidth / visibleDataPoints;
                          dataIndexDelta = - deltaPixels / pixelsPerDataPoint
                      in (handleInteractivePan (fst s) dataIndexDelta,
                          (snd s)\<lparr>panStartX := clientX ev\<rparr>))))
      else s)"

definition handlePanEnd :: "chart option \<Rightarrow> view \<Rightarrow> view" where
  "handlePanEnd ch v =
     (if isPanning v
      then (let v' = v\<lparr>isPanning := False\<rparr>
            in case ch of Some c \<Rightarrow> v'\<lparr>cursor := Cursor_default\<rparr> | None \<Rightarrow> v')
      else v)"

definition handleDoubleClick :: "app \<Rightarrow> string \<Rightarrow> app" where
  "handleDoubleClick a now = handleAddAnnotation a now"

definition handleCombinedMouseDown ::
  "chart option \<Rightarrow> real list \<Rightarrow> mouse_event \<Rightarrow> app \<times> view \<Rightarrow> app \<times> view" where
  "handleCombinedMouseDown ch d ev s = handlePanStart ch d ev (handleMouseDown ch d ev s)"

definition handleCombinedMouseMove ::
  "chart option \<Rightarrow> real list \<Rightarrow> mouse_event \<Rightarrow> app \<times> view \<Rightarrow> app \<times> view" where
  "handleCombinedMouseMove ch d ev s = handlePanMove ch d ev (handleMouseMove ch d ev s)"

definition handleCombinedMouseUp :: "chart option \<Rightarrow> view \<Rightarrow> view" where
  "handleCombinedMouseUp ch v = handlePanEnd ch (handleMouseUp ch v)"

text \<open>
  The events a chart's surface is wired to, each with the chart as the library shows it
  at that moment: \<^verbatim>\<open>onMouseDown\<close>, \<^verbatim>\<open>onMouseMove\<close>, \<^verbatim>\<open>onMouseUp\<close>, \<^verbatim>\<open>onMouseLeave\<close>,
  \<^verbatim>\<open>onWheel\<close> and \<^verbatim>\<open>onDoubleClick\<close>.
\<close>

datatype event =
    MouseDown "chart option" mouse_event
  | MouseMove "chart option" mouse_event
  | MouseUp "chart option"
  | MouseLeave "chart option"
  | Wheel "chart option" wheel_event
  | DoubleClick string

fun dispatch :: "real list \<Rightarrow> event \<Rightarrow> app \<times> view \<Rightarrow> app \<times> view" where
  "dispatch d (MouseDown ch ev) s = handleCombinedMouseDown ch d ev s"
| "dispatch d (MouseMove ch ev) s = handleCombinedMouseMove ch d ev s"
| "dispatch d (MouseUp ch) s = (fst s, handleCombinedMouseUp ch (snd s))"
| "dispatch d (MouseLeave ch) s = (fst s, handleMouseLeave ch (snd s))"
| "dispatch d (Wheel ch ev) s = (handleWheel ch ev (fst s), snd s)"
| "dispatch d (DoubleClick now) s = (handleDoubleClick (fst s) now, snd s)"

fun run :: "real list \<Rightarrow> event list \<Rightarrow> app \<times> view \<Rightarrow> app \<times> view" where
  "run d [] s = s"
| "run d (e # es) s = run d es (dispatch d e s)"

section \<open>Auxiliary notions for the statements\<close>

text \<open>
  The initial values of the \<^verbatim>\<open>useState\<close> cells of \<^verbatim>\<open>App\<close>, for two given series, and of
  the cells of a chart.
\<close>

definition initialApp :: "real list \<Rightarrow> real list \<Rightarrow> app" where
  "initialApp d1 d2 =
     \<lparr>data1 = d1, data2 = d2, annotations = [], currentPosition = 250, zoom = 2,
      panX = 0.5\<rparr>"

definition initialView :: view where
  "initialView =
     \<lparr>dragging = None, tooltip = tooltip_hidden, isPanning = False, panStartX = 0,
      cursor = Cursor_default\<rparr>"

text \<open>
  The series and the viewport the \<^verbatim>\<open>App\<close> hands to its first and to its second chart,
  and the window \<open>(startIndex, endIndex)\<close> a chart derives from them.
\<close>

definition chart1_props :: "app \<Rightarrow> real list \<times> real \<times> real" where
  "chart1_props a = (data1 a, zoom a, panX a)"

definition chart2_props :: "app \<Rightarrow> real list \<times> real \<times> real" where
  "chart2_props a = (data2 a, zoom a, panX a)"

fun window :: "real list \<times> real \<times> real \<Rightarrow> real \<times> real" where
  "window (d, z, p) = (startIndex d z p, endIndex d z p)"

text \<open>
  A marker index is valid for a series of \<open>n\<close> samples when it is an integer of
  \<open>[0, n - 1]\<close>; the markers of a state are valid when the current position and every
  annotation are.
\<close>

definition validIndex :: "nat \<Rightarrow> real \<Rightarrow> bool" where
  "validIndex n x \<longleftrightarrow> x = of_int \<lfloor>x\<rfloor> \<and> 0 \<le> x \<and> x \<le> real n - 1"

definition markersValid :: "app \<Rightarrow> bool" where
  "markersValid a \<longleftrightarrow>
     validIndex (length (data1 a)) (currentPosition a) \<and>
     list_all (\<lambda>an. validIndex (length (data1 a)) (value_ann an)) (annotations a)"

text \<open>
  The pan contract in the specification's words (section 4.3), to be compared with
  \<open>handleInteractivePan\<close>: \<open>clamp_spec x lo hi\<close> is \<open>x\<close> limited to \<open>[lo, hi]\<close>.
\<close>

definition clamp_spec :: "real \<Rightarrow> real \<Rightarrow> real \<Rightarrow> real" where
  "clamp_spec x lo hi = (if x < lo then lo else if hi < x then hi else x)"

definition pan_spec :: "real \<Rightarrow> real \<Rightarrow> real \<Rightarrow> nat \<Rightarrow> real" where
  "pan_spec indexDelta currentZoom currentPan n =
     (let visibleCount = of_int \<lceil>real n / currentZoom\<rceil>;
          maxStart = max 0 (real n - visibleCount)
      in if maxStart = 0 then currentPan
         else
           let newStart =
                 clamp_spec (of_int \<lfloor>currentPan * maxStart\<rfloor> + indexDelta) 0 maxStart
           in newStart / maxStart)"

text \<open>
  A state and a chart to evaluate the handlers on: 500 samples at the initial viewport,
  whose window \<open>[125, 375]\<close> the chart draws on 1000 pixels, with two annotations at the
  indices \<open>300\<close> and \<open>305\<close>.
\<close>

definition example_app :: app where
  "example_app =
     \<lparr>data1 = replicate 500 0, data2 = replicate 500 0,
      annotations =
        [\<lparr>id_ann = ''annotation-1'', value_ann = 300, color_ann = ''#10B981''\<rparr>,
         \<lparr>id_ann = ''annotation-2'', value_ann = 305, color_ann = ''#8B5CF6''\<rparr>],
      currentPosition = 250, zoom = 2, panX = 0.5\<rparr>"

definition example_chart :: chart where
  "example_chart =
     \<lparr>rect_left = 0, getValueForPixel = (\<lambda>x. Some (125 + x / 4)),
      chartArea = Some \<lparr>area_left = 0, area_right = 1000\<rparr>\<rparr>"

section \<open>Viewport bounds\<close>

lemma visibleDataPoints_ge_1:
  assumes "1 \<le> length d" and "1 \<le> z"
  shows "1 \<le> visibleDataPoints d z"
proof -
  have "0 < z" using assms(2) by linarith
  moreover have "0 < real (length d)" using assms(1) by (cases d) simp_all
  ultimately have "0 < real (length d) / z" by (rule divide_pos_pos [rotated])
  then have "0 < \<lceil>real (length d) / z\<rceil>" by (simp add: less_ceiling_iff)
  then have "1 \<le> \<lceil>real (length d) / z\<rceil>" by linarith
  then have "(1::real) \<le> of_int \<lceil>real (length d) / z\<rceil>" by linarith
  then show ?thesis by (simp add: visibleDataPoints_def Math_ceil_def)
qed

lemma visibleDataPoints_le_length:
  assumes "1 \<le> z"
  shows "visibleDataPoints d z \<le> real (length d)"
proof -
  have z: "0 < z" using assms by linarith
  have "real (length d) * 1 \<le> real (length d) * z"
    using assms by (intro mult_left_mono) simp_all
  then have "real (length d) / z \<le> real (length d)"
    using z by (simp add: divide_le_eq)
  then have "real (length d) / z \<le> of_int (int (length d))" by simp
  then have "\<lceil>real (length d) / z\<rceil> \<le> int (length d)" by (simp only: ceiling_le_iff)
  then have "(of_int \<lceil>real (length d) / z\<rceil> :: real) \<le> of_int (int (length d))"
    by (simp only: of_int_le_iff)
  then show ?thesis by (simp add: visibleDataPoints_def Math_ceil_def)
qed

lemma floor_scaled_int_bounds:
  assumes "0 \<le> (p::real)" and "p \<le> 1" and "0 \<le> k"
  shows "0 \<le> \<lfloor>p * of_int k\<rfloor> \<and> \<lfloor>p * of_int k\<rfloor> \<le> k"
proof -
  have k: "(0::real) \<le> of_int k" using assms(3) by simp
  have "0 \<le> p * of_int k" using assms(1) k by simp
  moreover have "p * of_int k \<le> of_int k"
    using mult_right_mono [OF assms(2) k] by simp
  ultimately show ?thesis by (simp add: floor_le_iff le_floor_iff)
qed

lemma startIndex_bounds:
  assumes "1 \<le> z" and "0 \<le> p" and "p \<le> 1"
  shows "0 \<le> startIndex d z p \<and> startIndex d z p \<le> real (length d) - visibleDataPoints d z"
proof -
  define k where "k = int (length d) - \<lceil>real (length d) / z\<rceil>"
  have vis: "visibleDataPoints d z \<le> real (length d)"
    using assms(1) by (rule visibleDataPoints_le_length)
  have eq: "real (length d) - visibleDataPoints d z = of_int k"
    by (simp add: k_def visibleDataPoints_def Math_ceil_def)
  have "0 \<le> (of_int k :: real)" using vis eq by linarith
  then have k0: "0 \<le> k" by simp
  have b: "0 \<le> \<lfloor>p * of_int k\<rfloor> \<and> \<lfloor>p * of_int k\<rfloor> \<le> k"
    using assms(2,3) k0 by (rule floor_scaled_int_bounds)
  have s: "startIndex d z p = of_int \<lfloor>p * of_int k\<rfloor>"
    by (simp only: startIndex_def Math_floor_def eq)
  from b have "(0::real) \<le> of_int \<lfloor>p * of_int k\<rfloor>" by simp
  moreover from b have "(of_int \<lfloor>p * of_int k\<rfloor> :: real) \<le> of_int k"
    by (simp only: of_int_le_iff)
  ultimately show ?thesis by (simp only: s eq)
qed

text \<open>
  C6. For a series of at least one sample, a zoom in \<open>[1, 10]\<close> and a pan in \<open>[0, 1]\<close>,
  the chart's \<open>visibleDataPoints\<close> lies in \<open>[1, N]\<close> and its \<open>startIndex\<close> lies in
  \<open>[0, N - visibleDataPoints]\<close>; when the whole series is visible the start is \<open>0\<close>.
\<close>

theorem viewport_bounds:
  assumes "1 \<le> length d" and "1 \<le> z" and "z \<le> 10" and "0 \<le> p" and "p \<le> 1"
  shows "1 \<le> visibleDataPoints d z \<and> visibleDataPoints d z \<le> real (length d) \<and>
         0 \<le> startIndex d z p \<and>
         startIndex d z p \<le> real (length d) - visibleDataPoints d z \<and>
         (real (length d) \<le> visibleDataPoints d z \<longrightarrow> startIndex d z p = 0)"
proof -
  have a: "1 \<le> visibleDataPoints d z" using assms(1,2) by (rule visibleDataPoints_ge_1)
  have b: "visibleDataPoints d z \<le> real (length d)"
    using assms(2) by (rule visibleDataPoints_le_length)
  have c: "0 \<le> startIndex d z p \<and>
           startIndex d z p \<le> real (length d) - visibleDataPoints d z"
    using assms(2,4,5) by (rule startIndex_bounds)
  have e: "real (length d) \<le> visibleDataPoints d z \<longrightarrow> startIndex d z p = 0"
    using c by auto
  from a b c e show ?thesis by blast
qed

theorem viewport_bounds_witness:
  "visibleDataPoints (replicate 500 0) 2 = 250 \<and>
   startIndex (replicate 500 0) 2 (1 / 2) = 125 \<and>
   1 \<le> visibleDataPoints (replicate 500 0) 2 \<and>
   visibleDataPoints (replicate 500 0) 2 \<le> real (length (replicate 500 (0::real))) \<and>
   0 \<le> startIndex (replicate 500 0) 2 (1 / 2) \<and>
   startIndex (replicate 500 0) 2 (1 / 2)
     \<le> real (length (replicate 500 (0::real))) - visibleDataPoints (replicate 500 0) 2 \<and>
   startIndex (replicate 500 0) 1 (1 / 2) = 0"
proof -
  have v: "visibleDataPoints (replicate 500 0) 2 = 250"
    by (simp add: visibleDataPoints_def Math_ceil_def)
  have s: "startIndex (replicate 500 0) 2 (1 / 2) = 125"
    by (simp add: startIndex_def visibleDataPoints_def Math_ceil_def Math_floor_def)
  have full: "real (length (replicate 500 (0::real))) \<le> visibleDataPoints (replicate 500 0) 1"
    by (simp add: visibleDataPoints_def Math_ceil_def)
  have t1: "startIndex (replicate 500 0) 1 (1 / 2) = 0"
    using viewport_bounds [of "replicate 500 0" 1 "1 / 2"] full by simp
  have t2: "1 \<le> visibleDataPoints (replicate 500 0) 2 \<and>
        visibleDataPoints (replicate 500 0) 2 \<le> real (length (replicate 500 (0::real))) \<and>
        0 \<le> startIndex (replicate 500 0) 2 (1 / 2) \<and>
        startIndex (replicate 500 0) 2 (1 / 2)
          \<le> real (length (replicate 500 (0::real))) - visibleDataPoints (replicate 500 0) 2"
    using viewport_bounds [of "replicate 500 0" 2 "1 / 2"] by simp
  from v s t1 t2 show ?thesis by blast
qed

section \<open>The zoom controller\<close>

lemma zoom_clamped_at_bounds:
  assumes "z = 10 \<and> 0 < (delta::real) \<or> z = 1 \<and> delta \<le> 0"
  shows "max 1 (min 10 (z * (if delta > 0 then 1.2 else 0.8))) = (z::real)"
  using assms by (elim disjE conjE) simp_all

lemma handleInteractiveZoom_writes_None:
  assumes "max 1 (min 10 (zoom a * (if delta > 0 then 1.2 else 0.8))) = zoom a"
  shows "handleInteractiveZoom_writes a delta centerX = None"
  by (simp only: handleInteractiveZoom_writes_def Let_def assms simp_thms if_True)

text \<open>
  C5. A zoom-in request (a positive delta) at zoom \<open>10\<close> and a zoom-out request at zoom
  \<open>1\<close> take the early return: nothing is written, and the state, with its zoom and
  pan, is what it was, whatever the pan and the cursor position are.
\<close>

theorem zoom_noop_at_bounds:
  assumes "zoom a = 10 \<and> 0 < delta \<or> zoom a = 1 \<and> delta \<le> 0"
  shows "handleInteractiveZoom_writes a delta centerX = None \<and>
         handleInteractiveZoom a delta centerX = a \<and>
         zoom (handleInteractiveZoom a delta centerX) = zoom a \<and>
         panX (handleInteractiveZoom a delta centerX) = panX a"
proof -
  have "handleInteractiveZoom_writes a delta centerX = None"
    using assms by (intro handleInteractiveZoom_writes_None zoom_clamped_at_bounds)
  then show ?thesis by (simp add: handleInteractiveZoom_def)
qed


lemma zoom_in_writes_default:
  assumes "length (data1 a) = 500" and "zoom a = 2" and "panX a = 1 / 2" and "0 < delta"
  shows "handleInteractiveZoom_writes a delta 250 = Some (12 / 5, 1 / 2)"
  unfolding handleInteractiveZoom_writes_def Let_def assms(1,2,3)
  using assms(4) by (simp add: Math_ceil_def Math_floor_def)

text \<open>
  C1. With 500 samples, zoom \<open>2\<close> and pan \<open>0.5\<close> the window is \<open>[125, 375)\<close> and index
  \<open>250\<close> sits at the relative position \<open>1/2\<close>. After a zoom-in request anchored at
  index \<open>250\<close> the zoom is \<open>2.4\<close>, the pan is \<open>0.5\<close>, the chart derives \<open>209\<close> visible
  points from index \<open>145\<close>, and index \<open>250\<close> is within one index of the relative position
  \<open>1/2\<close> in the new window.
\<close>

theorem zoom_anchoring:
  assumes "length (data1 a) = 500" and "zoom a = 2" and "panX a = 1 / 2" and "0 < delta"
  shows "startIndex (data1 a) (zoom a) (panX a) = 125 \<and>
         endIndex (data1 a) (zoom a) (panX a) = 375 \<and>
         (250 - startIndex (data1 a) (zoom a) (panX a)) / visibleDataPoints (data1 a) (zoom a)
           = 1 / 2 \<and>
         (let a' = handleInteractiveZoom a delta 250;
              newVisibleCount = visibleDataPoints (data1 a') (zoom a');
              newStartIndex = startIndex (data1 a') (zoom a') (panX a')
          in zoom a' = 2.4 \<and> panX a' = 1 / 2 \<and>
             newVisibleCount = 209 \<and> newStartIndex = 145 \<and>
             \<bar>(250 - newStartIndex) / newVisibleCount - 1 / 2\<bar> * newVisibleCount \<le> 1)"
proof -
  have old: "visibleDataPoints (data1 a) (zoom a) = 250"
    unfolding visibleDataPoints_def assms(1,2) by (simp add: Math_ceil_def)
  have olds: "startIndex (data1 a) (zoom a) (panX a) = 125"
    unfolding startIndex_def old unfolding assms(1,3) by (simp add: Math_floor_def)
  have olde: "endIndex (data1 a) (zoom a) (panX a) = 375"
    unfolding endIndex_def old olds by simp
  have rel: "(250 - (125::real)) / 250 = 1 / 2" by simp
  define a' where "a' = handleInteractiveZoom a delta 250"
  have a': "a' = a\<lparr>zoom := 12 / 5, panX := 1 / 2\<rparr>"
    unfolding a'_def handleInteractiveZoom_def zoom_in_writes_default [OF assms] by simp
  have len: "length (data1 a') = 500" and z: "zoom a' = 12 / 5" and p: "panX a' = 1 / 2"
    using assms(1) by (simp_all add: a')
  have new: "visibleDataPoints (data1 a') (zoom a') = 209"
    unfolding visibleDataPoints_def len z by (simp add: Math_ceil_def)
  have news: "startIndex (data1 a') (zoom a') (panX a') = 145"
    unfolding startIndex_def new unfolding len p by (simp add: Math_floor_def)
  have fin: "\<bar>(250 - (145::real)) / 209 - 1 / 2\<bar> * 209 \<le> 1" by simp
  have z': "zoom a' = 2.4" using z by simp
  have last: "\<bar>(250 - startIndex (data1 a') (zoom a') (panX a'))
                 / visibleDataPoints (data1 a') (zoom a') - 1 / 2\<bar>
               * visibleDataPoints (data1 a') (zoom a') \<le> 1"
    by (simp only: new news) (rule fin)
  from z' p new news last
  have post: "zoom a' = 2.4 \<and> panX a' = 1 / 2 \<and>
      visibleDataPoints (data1 a') (zoom a') = 209 \<and>
      startIndex (data1 a') (zoom a') (panX a') = 145 \<and>
      \<bar>(250 - startIndex (data1 a') (zoom a') (panX a')) / visibleDataPoints (data1 a') (zoom a')
         - 1 / 2\<bar> * visibleDataPoints (data1 a') (zoom a') \<le> 1"
    by blast
  have pre: "(250 - startIndex (data1 a) (zoom a) (panX a)) / visibleDataPoints (data1 a) (zoom a)
           = 1 / 2"
    by (simp only: old olds rel)
  from olds olde pre post show ?thesis
    unfolding Let_def a'_def by blast
qed


theorem zoom_anchoring_witness:
  "(let a' = handleInteractiveZoom (initialApp (replicate 500 0) (replicate 500 0)) 100 250;
        newVisibleCount = visibleDataPoints (data1 a') (zoom a');
        newStartIndex = startIndex (data1 a') (zoom a') (panX a')
    in zoom a' = 2.4 \<and> panX a' = 1 / 2 \<and>
       newVisibleCount = 209 \<and> newStartIndex = 145 \<and>
       \<bar>(250 - newStartIndex) / newVisibleCount - 1 / 2\<bar> * newVisibleCount \<le> 1)"
proof -
  have h: "length (data1 (initialApp (replicate 500 0) (replicate 500 0))) = 500"
      "zoom (initialApp (replicate 500 0) (replicate 500 0)) = 2"
      "panX (initialApp (replicate 500 0) (replicate 500 0)) = 1 / 2"
    by (simp_all add: initialApp_def)
  have pos: "(0::real) < 100" by simp
  from zoom_anchoring [OF h pos] show ?thesis by blast
qed

theorem zoom_noop_at_bounds_witness:
  "handleInteractiveZoom ((initialApp [] [])\<lparr>zoom := 10, panX := 0.3\<rparr>) 1 7
     = (initialApp [] [])\<lparr>zoom := 10, panX := 0.3\<rparr> \<and>
   handleInteractiveZoom ((initialApp [] [])\<lparr>zoom := 1, panX := 0.3\<rparr>) (- 1) 7
     = (initialApp [] [])\<lparr>zoom := 1, panX := 0.3\<rparr>"
proof -
  have h10: "zoom ((initialApp [] [])\<lparr>zoom := 10, panX := 0.3\<rparr>) = 10 \<and> (0::real) < 1 \<or>
             zoom ((initialApp [] [])\<lparr>zoom := 10, panX := 0.3\<rparr>) = 1 \<and> (1::real) \<le> 0"
    by simp
  have h1: "zoom ((initialApp [] [])\<lparr>zoom := 1, panX := 0.3\<rparr>) = 10 \<and> (0::real) < - 1 \<or>
            zoom ((initialApp [] [])\<lparr>zoom := 1, panX := 0.3\<rparr>) = 1 \<and> (- 1::real) \<le> 0"
    by simp
  from zoom_noop_at_bounds [OF h10, of 7] zoom_noop_at_bounds [OF h1, of 7]
  show ?thesis by blast
qed

section \<open>The pan controller\<close>

lemma clamp_spec_max_min: "lo \<le> hi \<Longrightarrow> clamp_spec x lo hi = max lo (min hi x)"
  by (simp add: clamp_spec_def max_def min_def)

lemma handleInteractivePan_spec:
  "handleInteractivePan a delta
     = a\<lparr>panX := pan_spec delta (zoom a) (panX a) (length (data1 a))\<rparr>"
proof -
  define m where
    "m = max 0 (real (length (data1 a)) - Math_ceil (real (length (data1 a)) / zoom a))"
  have m0: "0 \<le> m" by (simp add: m_def)
  have code: "handleInteractivePan a delta
      = (if m \<le> 0 then a
         else a\<lparr>panX := max 0 (min m (Math_floor (panX a * m) + delta)) / m\<rparr>)"
    by (simp only: handleInteractivePan_def Let_def m_def)
  have spec: "pan_spec delta (zoom a) (panX a) (length (data1 a))
      = (if m = 0 then panX a
         else clamp_spec (of_int \<lfloor>panX a * m\<rfloor> + delta) 0 m / m)"
    by (simp only: pan_spec_def Let_def m_def Math_ceil_def)
  show ?thesis
  proof (cases "m = 0")
    case True
    then show ?thesis by (simp add: code spec)
  next
    case False
    with m0 have "\<not> m \<le> 0" by simp
    with False show ?thesis
      by (simp add: code spec Math_floor_def clamp_spec_max_min [OF m0])
  qed
qed

lemma pan_spec_range:
  assumes "0 \<le> p" and "p \<le> 1"
  shows "0 \<le> pan_spec delta z p n \<and> pan_spec delta z p n \<le> 1"
proof -
  define m where "m = max 0 (real n - of_int \<lceil>real n / z\<rceil>)"
  have m0: "0 \<le> m" by (simp add: m_def)
  have spec: "pan_spec delta z p n
      = (if m = 0 then p else clamp_spec (of_int \<lfloor>p * m\<rfloor> + delta) 0 m / m)"
    by (simp only: pan_spec_def Let_def m_def)
  show ?thesis
  proof (cases "m = 0")
    case True
    then show ?thesis using assms by (simp add: spec)
  next
    case False
    with m0 have pos: "0 < m" by simp
    define c where "c = clamp_spec (of_int \<lfloor>p * m\<rfloor> + delta) 0 m"
    have "0 \<le> c \<and> c \<le> m" using m0 by (simp add: c_def clamp_spec_def)
    then have "0 \<le> c / m \<and> c / m \<le> 1" using pos by simp
    then show ?thesis using False by (simp add: spec c_def [symmetric])
  qed
qed

lemma handleInteractivePan_noop:
  assumes "max 0 (real (length (data1 a)) - of_int \<lceil>real (length (data1 a)) / zoom a\<rceil>) = 0"
  shows "handleInteractivePan a delta = a"
  by (simp only: handleInteractivePan_def Let_def Math_ceil_def assms order_refl if_True)

text \<open>
  C4. For a zoom in \<open>[1, 10]\<close> and a pan in \<open>[0, 1]\<close>, the pan handler changes at most
  \<open>panX\<close>, and stores what the contract of the specification says: with
  \<open>maxStart = max 0 (N - \<lceil>N / zoom\<rceil>)\<close>, the old pan when \<open>maxStart = 0\<close> (the state is
  then untouched), and otherwise
  \<open>clamp (\<lfloor>pan * maxStart\<rfloor> + delta) 0 maxStart / maxStart\<close>. The stored pan lies in
  \<open>[0, 1]\<close>.
\<close>

theorem pan_contract:
  assumes "1 \<le> zoom a" and "zoom a \<le> 10" and "0 \<le> panX a" and "panX a \<le> 1"
  shows "handleInteractivePan a delta
           = a\<lparr>panX := pan_spec delta (zoom a) (panX a) (length (data1 a))\<rparr> \<and>
         0 \<le> panX (handleInteractivePan a delta) \<and>
         panX (handleInteractivePan a delta) \<le> 1 \<and>
         (max 0 (real (length (data1 a)) - of_int \<lceil>real (length (data1 a)) / zoom a\<rceil>) = 0
            \<longrightarrow> handleInteractivePan a delta = a)"
proof -
  have noop: "max 0 (real (length (data1 a)) - of_int \<lceil>real (length (data1 a)) / zoom a\<rceil>) = 0
      \<longrightarrow> handleInteractivePan a delta = a"
    using handleInteractivePan_noop by blast
  have r: "0 \<le> pan_spec delta (zoom a) (panX a) (length (data1 a)) \<and>
           pan_spec delta (zoom a) (panX a) (length (data1 a)) \<le> 1"
    using assms(3,4) by (rule pan_spec_range)
  have e: "panX (handleInteractivePan a delta)
             = pan_spec delta (zoom a) (panX a) (length (data1 a))"
    by (simp add: handleInteractivePan_spec)
  from r have r': "0 \<le> panX (handleInteractivePan a delta) \<and>
                  panX (handleInteractivePan a delta) \<le> 1"
    by (simp only: e)
  from handleInteractivePan_spec [of a delta] r' noop show ?thesis by blast
qed

theorem pan_contract_witness:
  "panX (handleInteractivePan (initialApp (replicate 500 0) (replicate 500 0)) 25) = 3 / 5 \<and>
   0 \<le> panX (handleInteractivePan (initialApp (replicate 500 0) (replicate 500 0)) 25) \<and>
   panX (handleInteractivePan (initialApp (replicate 500 0) (replicate 500 0)) 25) \<le> 1 \<and>
   handleInteractivePan ((initialApp (replicate 500 0) (replicate 500 0))\<lparr>zoom := 1\<rparr>) 25
     = (initialApp (replicate 500 0) (replicate 500 0))\<lparr>zoom := 1\<rparr>"
proof -
  define A where "A = initialApp (replicate 500 0) (replicate 500 0)"
  have A: "zoom A = 2" "panX A = 1 / 2" "length (data1 A) = 500"
    by (simp_all add: A_def initialApp_def)
  have hyp: "1 \<le> zoom A" "zoom A \<le> 10" "0 \<le> panX A" "panX A \<le> 1"
    by (simp_all add: A)
  have ps: "pan_spec 25 2 (1 / 2) 500 = 3 / 5"
    by (simp add: pan_spec_def clamp_spec_def Let_def)
  from pan_contract [OF hyp, of 25]
  have e: "handleInteractivePan A 25
             = A\<lparr>panX := pan_spec 25 (zoom A) (panX A) (length (data1 A))\<rparr>"
    and r: "0 \<le> panX (handleInteractivePan A 25)" "panX (handleInteractivePan A 25) \<le> 1"
    by blast+
  have "panX (handleInteractivePan A 25) = pan_spec 25 (zoom A) (panX A) (length (data1 A))"
    by (simp add: e)
  then have v: "panX (handleInteractivePan A 25) = 3 / 5" by (simp only: A ps)
  define B where "B = A\<lparr>zoom := 1\<rparr>"
  have B: "zoom B = 1" "panX B = 1 / 2" "length (data1 B) = 500"
    by (simp_all add: B_def A_def initialApp_def)
  have hypB: "1 \<le> zoom B" "zoom B \<le> 10" "0 \<le> panX B" "panX B \<le> 1"
    by (simp_all add: B)
  have full: "max 0 (real (length (data1 B)) - of_int \<lceil>real (length (data1 B)) / zoom B\<rceil>) = 0"
    by (simp only: B) simp
  from pan_contract [OF hypB, of 25] full have n: "handleInteractivePan B 25 = B" by blast
  from v r n show ?thesis unfolding B_def A_def by blast
qed

section \<open>Annotations, reset and the two charts\<close>

lemma ANNOTATION_COLORS_length: "length ANNOTATION_COLORS = 8"
  by (simp add: ANNOTATION_COLORS_def)

text \<open>
  C8. At a zoom other than zero, adding an annotation appends one annotation to the
  list: its value is the chart's \<open>startIndex\<close> plus half the chart's
  \<open>visibleDataPoints\<close>, rounded down, and its colour is the palette entry at the number
  of existing annotations modulo \<open>8\<close>.
\<close>

theorem add_annotation_center_color:
  assumes "zoom a \<noteq> 0"
  shows "handleAddAnnotation a now
     = a\<lparr>annotations := annotations a @
          [\<lparr>id_ann = ''annotation-'' @ now,
            value_ann = startIndex (data1 a) (zoom a) (panX a)
                        + Math_floor (visibleDataPoints (data1 a) (zoom a) / 2),
            color_ann = ANNOTATION_COLORS ! (length (annotations a) mod 8)\<rparr>]\<rparr> \<and>
   length (annotations a) mod 8 < length ANNOTATION_COLORS \<and>
   handleDoubleClick a now = handleAddAnnotation a now"
  by (simp add: handleAddAnnotation_def handleDoubleClick_def Let_def startIndex_def
      visibleDataPoints_def ANNOTATION_COLORS_length)

theorem add_annotation_center_color_witness:
  "startIndex (replicate 500 0) 5 (1 / 4) = 100 \<and>
   visibleDataPoints (replicate 500 0) 5 = 100 \<and>
   annotations
     (handleAddAnnotation
        ((initialApp (replicate 500 0) (replicate 500 0))
           \<lparr>annotations := replicate 9 \<lparr>id_ann = ''a'', value_ann = 7, color_ann = ''c''\<rparr>,
            zoom := 5, panX := 1 / 4\<rparr>) ''1700000000000'')
     = replicate 9 \<lparr>id_ann = ''a'', value_ann = 7, color_ann = ''c''\<rparr> @
       [\<lparr>id_ann = ''annotation-1700000000000'', value_ann = 150, color_ann = ''#8B5CF6''\<rparr>]"
proof -
  define A where "A = (initialApp (replicate 500 0) (replicate 500 0))
           \<lparr>annotations := replicate 9 \<lparr>id_ann = ''a'', value_ann = 7, color_ann = ''c''\<rparr>,
            zoom := 5, panX := 1 / 4\<rparr>"
  have A: "data1 A = replicate 500 0" "zoom A = 5" "panX A = 1 / 4"
     "annotations A = replicate 9 \<lparr>id_ann = ''a'', value_ann = 7, color_ann = ''c''\<rparr>"
    by (simp_all add: A_def initialApp_def)
  have v: "visibleDataPoints (replicate 500 0) 5 = 100"
    by (simp add: visibleDataPoints_def Math_ceil_def)
  have s: "startIndex (replicate 500 0) 5 (1 / 4) = 100"
    by (simp add: startIndex_def visibleDataPoints_def Math_ceil_def Math_floor_def)
  have c: "Math_floor (100 / 2) = 50" by (simp add: Math_floor_def)
  have k: "ANNOTATION_COLORS ! (length (replicate 9 \<lparr>id_ann = ''a'', value_ann = 7, color_ann = ''c''\<rparr>) mod 8)
            = ''#8B5CF6''"
    by (simp add: ANNOTATION_COLORS_def)
  have nz: "zoom A \<noteq> 0" by (simp add: A)
  from add_annotation_center_color [OF nz, of "''1700000000000''"]
  have "handleAddAnnotation A ''1700000000000''
     = A\<lparr>annotations := annotations A @
          [\<lparr>id_ann = ''annotation-'' @ ''1700000000000'',
            value_ann = startIndex (data1 A) (zoom A) (panX A)
                        + Math_floor (visibleDataPoints (data1 A) (zoom A) / 2),
            color_ann = ANNOTATION_COLORS ! (length (annotations A) mod 8)\<rparr>]\<rparr>"
    by blast
  then have "annotations (handleAddAnnotation A ''1700000000000'')
     = annotations A @
          [\<lparr>id_ann = ''annotation-'' @ ''1700000000000'',
            value_ann = startIndex (data1 A) (zoom A) (panX A)
                        + Math_floor (visibleDataPoints (data1 A) (zoom A) / 2),
            color_ann = ANNOTATION_COLORS ! (length (annotations A) mod 8)\<rparr>]"
    by simp
  then have "annotations (handleAddAnnotation A ''1700000000000'')
     = replicate 9 \<lparr>id_ann = ''a'', value_ann = 7, color_ann = ''c''\<rparr> @
       [\<lparr>id_ann = ''annotation-1700000000000'', value_ann = 150, color_ann = ''#8B5CF6''\<rparr>]"
    by (simp only: A v s c k) simp
  with v s show ?thesis unfolding A_def by blast
qed

text \<open>
  C9. Two charts that are given the same zoom (not zero) and pan and series of the same
  length derive the same window \<open>(startIndex, endIndex)\<close>; the two charts of the
  \<^verbatim>\<open>App\<close> are given the same zoom and pan, so they do whenever the two series are as
  long as each other.
\<close>

theorem cross_chart_consistency:
  "(length d1 = length d2 \<and> z \<noteq> 0 \<longrightarrow> window (d1, z, p) = window (d2, z, p)) \<and>
   (length (data1 a) = length (data2 a) \<and> zoom a \<noteq> 0 \<longrightarrow>
      window (chart1_props a) = window (chart2_props a))"
  by (simp add: chart1_props_def chart2_props_def startIndex_def endIndex_def
      visibleDataPoints_def)

theorem cross_chart_consistency_witness:
  "window (replicate 500 1, 2, 1 / 2) = window (replicate 500 2, 2, 1 / 2) \<and>
   window (replicate 500 1, 2, 1 / 2) = (125, 375) \<and>
   window (chart1_props (initialApp (replicate 500 1) (replicate 500 2)))
     = window (chart2_props (initialApp (replicate 500 1) (replicate 500 2)))"
proof -
  have l: "length (replicate 500 (1::real)) = length (replicate 500 (2::real))" by simp
  have l': "length (data1 (initialApp (replicate 500 1) (replicate 500 2)))
          = length (data2 (initialApp (replicate 500 1) (replicate 500 2)))"
    by (simp add: initialApp_def)
  have nz: "(2::real) \<noteq> 0" "zoom (initialApp (replicate 500 1) (replicate 500 2)) \<noteq> 0"
    by (simp_all add: initialApp_def)
  have w: "window (replicate 500 1, 2, 1 / 2) = (125, 375)"
    by (simp add: startIndex_def endIndex_def visibleDataPoints_def Math_ceil_def
        Math_floor_def)
  from cross_chart_consistency [of "replicate 500 1" "replicate 500 2" 2 "1 / 2"
      "initialApp (replicate 500 1) (replicate 500 2)"] l l' nz w
  show ?thesis by blast
qed

text \<open>
  C10. Reset writes the zoom, the pan and the current position, and nothing else: the
  list of annotations, whatever it holds, is the same list afterwards, and so are the
  two series.
\<close>

theorem reset_keeps_annotations:
  "annotations (handleReset a) = annotations a \<and>
   data1 (handleReset a) = data1 a \<and> data2 (handleReset a) = data2 a \<and>
   zoom (handleReset a) = 2 \<and> panX (handleReset a) = 0.5 \<and>
   currentPosition (handleReset a) = 250 \<and>
   handleReset a = a\<lparr>zoom := 2, panX := 0.5, currentPosition := 250\<rparr>"
  by (simp add: handleReset_def)

section \<open>Pointer-down: which gesture starts\<close>

lemma closestAmong_None:
  "closestAmong d dataX i anns = None
     \<longleftrightarrow> find (\<lambda>an. \<bar>value_ann an - dataX\<bar> < 10) anns = None"
  by (induction anns arbitrary: i) simp_all

lemma closestAmong_Some:
  "find (\<lambda>an. \<bar>value_ann an - dataX\<bar> < 10) anns = Some an
     \<Longrightarrow> \<exists>cl. closestAmong d dataX i anns = Some cl \<and> type_c cl = Annotation_type \<and>
              id_c cl = id_ann an \<and> position_c cl = value_ann an"
  by (induction anns arbitrary: i) (simp_all split: if_splits)

lemma getClosestAnnotation_resolved:
  assumes "getValueForPixel c x = Some dataX"
  shows "getClosestAnnotation (Some c) d a x
     = (if \<bar>currentPosition a - dataX\<bar> < 10
        then Some \<lparr>type_c = Current_type, id_c = ''currentPosition'',
                   name_c = Current_Position_name,
                   position_c = currentPosition a,
                   value_c = data_or_0 d (currentPosition a)\<rparr>
        else closestAmong d dataX 0 (annotations a))"
  by (simp add: getClosestAnnotation_def assms)

lemma handleCombinedMouseDown_hit:
  assumes "getClosestAnnotation (Some c) d a (clientX ev - rect_left c) = Some cl"
  shows "handleCombinedMouseDown (Some c) d ev (a, v)
           = (a, v\<lparr>dragging := Some cl, cursor := Cursor_grabbing\<rparr>)"
  by (simp add: handleCombinedMouseDown_def handleMouseDown_def handlePanStart_def assms)

lemma handleCombinedMouseDown_miss:
  assumes "getClosestAnnotation (Some c) d a (clientX ev - rect_left c) = None"
  shows "handleCombinedMouseDown (Some c) d ev (a, v)
           = (a, v\<lparr>isPanning := True, panStartX := clientX ev, cursor := Cursor_grabbing\<rparr>)"
  by (simp add: handleCombinedMouseDown_def handleMouseDown_def handlePanStart_def assms)

text \<open>
  C7. At a pointer-down whose pixel resolves to the data coordinate \<open>dataX\<close>: when the
  current position is less than \<open>10\<close> index units from \<open>dataX\<close> the drag targets the
  current position; otherwise it targets the first annotation of the list (annotations
  are appended, so the list is in creation order) that is less than \<open>10\<close> units from
  \<open>dataX\<close>; when there is none a pan session starts at the pointer's \<open>clientX\<close>. In the
  first two cases no pan session starts, in the last the drag target is untouched; the
  shared state is never written, and the zoom and the pan have no part in the choice.
\<close>

theorem pointer_down_selection:
  assumes "getValueForPixel c (clientX ev - rect_left c) = Some dataX"
  shows "fst (handleCombinedMouseDown (Some c) d ev (a, v)) = a \<and>
    (\<bar>currentPosition a - dataX\<bar> < 10 \<longrightarrow>
       (\<exists>cl. snd (handleCombinedMouseDown (Some c) d ev (a, v))
               = v\<lparr>dragging := Some cl, cursor := Cursor_grabbing\<rparr> \<and>
             type_c cl = Current_type \<and> id_c cl = ''currentPosition'' \<and>
             position_c cl = currentPosition a)) \<and>
    (\<forall>an. \<not> \<bar>currentPosition a - dataX\<bar> < 10 \<and>
          find (\<lambda>an. \<bar>value_ann an - dataX\<bar> < 10) (annotations a) = Some an \<longrightarrow>
       (\<exists>cl. snd (handleCombinedMouseDown (Some c) d ev (a, v))
               = v\<lparr>dragging := Some cl, cursor := Cursor_grabbing\<rparr> \<and>
             type_c cl = Annotation_type \<and> id_c cl = id_ann an \<and>
             position_c cl = value_ann an)) \<and>
    (\<not> \<bar>currentPosition a - dataX\<bar> < 10 \<and>
     find (\<lambda>an. \<bar>value_ann an - dataX\<bar> < 10) (annotations a) = None \<longrightarrow>
       snd (handleCombinedMouseDown (Some c) d ev (a, v))
         = v\<lparr>isPanning := True, panStartX := clientX ev, cursor := Cursor_grabbing\<rparr>) \<and>
    handleCombinedMouseDown (Some c) d ev (a\<lparr>zoom := z, panX := p\<rparr>, v)
      = (a\<lparr>zoom := z, panX := p\<rparr>, snd (handleCombinedMouseDown (Some c) d ev (a, v)))"
proof -
  let ?x = "clientX ev - rect_left c"
  let ?P = "\<lambda>an. \<bar>value_ann an - dataX\<bar> < 10"
  note g = getClosestAnnotation_resolved [OF assms]
  have app_same: "fst (handleCombinedMouseDown (Some c) d ev (a, v)) = a"
    by (cases "getClosestAnnotation (Some c) d a ?x")
       (simp_all add: handleCombinedMouseDown_hit handleCombinedMouseDown_miss)
  have cur: "\<bar>currentPosition a - dataX\<bar> < 10 \<longrightarrow>
       (\<exists>cl. snd (handleCombinedMouseDown (Some c) d ev (a, v))
               = v\<lparr>dragging := Some cl, cursor := Cursor_grabbing\<rparr> \<and>
             type_c cl = Current_type \<and> id_c cl = ''currentPosition'' \<and>
             position_c cl = currentPosition a)"
  proof
    assume near: "\<bar>currentPosition a - dataX\<bar> < 10"
    define cl0 where
      "cl0 = \<lparr>type_c = Current_type, id_c = ''currentPosition'',
               name_c = Current_Position_name, position_c = currentPosition a,
               value_c = data_or_0 d (currentPosition a)\<rparr>"
    from near have "getClosestAnnotation (Some c) d a ?x = Some cl0"
      by (simp add: g cl0_def)
    then have "snd (handleCombinedMouseDown (Some c) d ev (a, v))
               = v\<lparr>dragging := Some cl0, cursor := Cursor_grabbing\<rparr>"
      by (simp add: handleCombinedMouseDown_hit)
    moreover have "type_c cl0 = Current_type \<and> id_c cl0 = ''currentPosition'' \<and>
             position_c cl0 = currentPosition a"
      by (simp add: cl0_def)
    ultimately show "\<exists>cl. snd (handleCombinedMouseDown (Some c) d ev (a, v))
               = v\<lparr>dragging := Some cl, cursor := Cursor_grabbing\<rparr> \<and>
             type_c cl = Current_type \<and> id_c cl = ''currentPosition'' \<and>
             position_c cl = currentPosition a"
      by blast
  qed
  have ann: "\<forall>an. \<not> \<bar>currentPosition a - dataX\<bar> < 10 \<and> find ?P (annotations a) = Some an \<longrightarrow>
       (\<exists>cl. snd (handleCombinedMouseDown (Some c) d ev (a, v))
               = v\<lparr>dragging := Some cl, cursor := Cursor_grabbing\<rparr> \<and>
             type_c cl = Annotation_type \<and> id_c cl = id_ann an \<and>
             position_c cl = value_ann an)"
  proof (intro allI impI, elim conjE)
    fix an
    assume far: "\<not> \<bar>currentPosition a - dataX\<bar> < 10"
      and f: "find ?P (annotations a) = Some an"
    from closestAmong_Some [OF f, of d 0] obtain cl where
      cl: "closestAmong d dataX 0 (annotations a) = Some cl" "type_c cl = Annotation_type"
        "id_c cl = id_ann an" "position_c cl = value_ann an"
      by blast
    from far cl(1) have "getClosestAnnotation (Some c) d a ?x = Some cl" by (simp add: g)
    then have "snd (handleCombinedMouseDown (Some c) d ev (a, v))
               = v\<lparr>dragging := Some cl, cursor := Cursor_grabbing\<rparr>"
      by (simp add: handleCombinedMouseDown_hit)
    with cl(2,3,4) show "\<exists>cl. snd (handleCombinedMouseDown (Some c) d ev (a, v))
               = v\<lparr>dragging := Some cl, cursor := Cursor_grabbing\<rparr> \<and>
             type_c cl = Annotation_type \<and> id_c cl = id_ann an \<and>
             position_c cl = value_ann an"
      by blast
  qed
  have pan: "\<not> \<bar>currentPosition a - dataX\<bar> < 10 \<and> find ?P (annotations a) = None \<longrightarrow>
       snd (handleCombinedMouseDown (Some c) d ev (a, v))
         = v\<lparr>isPanning := True, panStartX := clientX ev, cursor := Cursor_grabbing\<rparr>"
  proof (intro impI, elim conjE)
    assume far: "\<not> \<bar>currentPosition a - dataX\<bar> < 10"
      and f: "find ?P (annotations a) = None"
    from f have "closestAmong d dataX 0 (annotations a) = None"
      by (simp only: closestAmong_None)
    with far have "getClosestAnnotation (Some c) d a ?x = None" by (simp add: g)
    then show "snd (handleCombinedMouseDown (Some c) d ev (a, v))
         = v\<lparr>isPanning := True, panStartX := clientX ev, cursor := Cursor_grabbing\<rparr>"
      by (simp add: handleCombinedMouseDown_miss)
  qed
  have same: "getClosestAnnotation (Some c) d (a\<lparr>zoom := z, panX := p\<rparr>) ?x
                = getClosestAnnotation (Some c) d a ?x"
    by (simp add: getClosestAnnotation_resolved [OF assms])
  have indep: "handleCombinedMouseDown (Some c) d ev (a\<lparr>zoom := z, panX := p\<rparr>, v)
      = (a\<lparr>zoom := z, panX := p\<rparr>, snd (handleCombinedMouseDown (Some c) d ev (a, v)))"
  proof (cases "getClosestAnnotation (Some c) d a ?x")
    case None
    with same have "getClosestAnnotation (Some c) d (a\<lparr>zoom := z, panX := p\<rparr>) ?x = None"
      by simp
    with None show ?thesis by (simp add: handleCombinedMouseDown_miss)
  next
    case (Some cl)
    with same have "getClosestAnnotation (Some c) d (a\<lparr>zoom := z, panX := p\<rparr>) ?x = Some cl"
      by simp
    with Some show ?thesis by (simp add: handleCombinedMouseDown_hit)
  qed
  from app_same cur ann pan indep show ?thesis by blast
qed


theorem pointer_down_selection_witness:
  "(\<exists>cl. snd (handleCombinedMouseDown (Some example_chart) (replicate 500 0)
               \<lparr>clientX = 500, clientY = 0\<rparr> (example_app, initialView))
            = initialView\<lparr>dragging := Some cl, cursor := Cursor_grabbing\<rparr> \<and>
          type_c cl = Current_type \<and> id_c cl = ''currentPosition'' \<and>
          position_c cl = currentPosition example_app) \<and>
   (\<exists>cl. snd (handleCombinedMouseDown (Some example_chart) (replicate 500 0)
               \<lparr>clientX = 712, clientY = 0\<rparr> (example_app, initialView))
            = initialView\<lparr>dragging := Some cl, cursor := Cursor_grabbing\<rparr> \<and>
          type_c cl = Annotation_type \<and> id_c cl = ''annotation-1'') \<and>
   snd (handleCombinedMouseDown (Some example_chart) (replicate 500 0)
          \<lparr>clientX = 100, clientY = 0\<rparr> (example_app, initialView))
     = initialView\<lparr>isPanning := True, panStartX := 100, cursor := Cursor_grabbing\<rparr>"
proof -
  let ?A1 = "\<lparr>id_ann = ''annotation-1'', value_ann = 300, color_ann = ''#10B981''\<rparr>"
  have h1: "getValueForPixel example_chart
              (clientX \<lparr>clientX = 500, clientY = 0\<rparr> - rect_left example_chart) = Some 250"
    by (simp add: example_chart_def)
  have n1: "\<bar>currentPosition example_app - 250\<bar> < 10" by (simp add: example_app_def)
  have h2: "getValueForPixel example_chart
              (clientX \<lparr>clientX = 712, clientY = 0\<rparr> - rect_left example_chart) = Some 303"
    by (simp add: example_chart_def)
  have n2: "\<not> \<bar>currentPosition example_app - 303\<bar> < 10 \<and>
            find (\<lambda>an. \<bar>value_ann an - 303\<bar> < 10) (annotations example_app) = Some ?A1"
    by (simp add: example_app_def)
  have i2: "id_ann ?A1 = ''annotation-1''" by simp
  have h3: "getValueForPixel example_chart
              (clientX \<lparr>clientX = 100, clientY = 0\<rparr> - rect_left example_chart) = Some 150"
    by (simp add: example_chart_def)
  have n3: "\<not> \<bar>currentPosition example_app - 150\<bar> < 10 \<and>
            find (\<lambda>an. \<bar>value_ann an - 150\<bar> < 10) (annotations example_app) = None"
    by (simp add: example_app_def)
  have c3: "clientX \<lparr>clientX = 100, clientY = 0\<rparr> = 100" by simp
  from pointer_down_selection [OF h1, of "replicate 500 0" example_app initialView 2 "1 / 2"] n1
  have r1: "\<exists>cl. snd (handleCombinedMouseDown (Some example_chart) (replicate 500 0)
               \<lparr>clientX = 500, clientY = 0\<rparr> (example_app, initialView))
            = initialView\<lparr>dragging := Some cl, cursor := Cursor_grabbing\<rparr> \<and>
          type_c cl = Current_type \<and> id_c cl = ''currentPosition'' \<and>
          position_c cl = currentPosition example_app"
    by blast
  from pointer_down_selection [OF h2, of "replicate 500 0" example_app initialView 2 "1 / 2"] n2
  have "\<exists>cl. snd (handleCombinedMouseDown (Some example_chart) (replicate 500 0)
               \<lparr>clientX = 712, clientY = 0\<rparr> (example_app, initialView))
            = initialView\<lparr>dragging := Some cl, cursor := Cursor_grabbing\<rparr> \<and>
          type_c cl = Annotation_type \<and> id_c cl = id_ann ?A1"
    by blast
  then have r2: "\<exists>cl. snd (handleCombinedMouseDown (Some example_chart) (replicate 500 0)
               \<lparr>clientX = 712, clientY = 0\<rparr> (example_app, initialView))
            = initialView\<lparr>dragging := Some cl, cursor := Cursor_grabbing\<rparr> \<and>
          type_c cl = Annotation_type \<and> id_c cl = ''annotation-1''"
    by (simp only: i2)
  from pointer_down_selection [OF h3, of "replicate 500 0" example_app initialView 2 "1 / 2"] n3
  have "snd (handleCombinedMouseDown (Some example_chart) (replicate 500 0)
          \<lparr>clientX = 100, clientY = 0\<rparr> (example_app, initialView))
     = initialView\<lparr>isPanning := True, panStartX := clientX \<lparr>clientX = 100, clientY = 0\<rparr>,
                   cursor := Cursor_grabbing\<rparr>"
    by blast
  then have r3: "snd (handleCombinedMouseDown (Some example_chart) (replicate 500 0)
          \<lparr>clientX = 100, clientY = 0\<rparr> (example_app, initialView))
     = initialView\<lparr>isPanning := True, panStartX := 100, cursor := Cursor_grabbing\<rparr>"
    by (simp only: c3)
  from r1 r2 r3 show ?thesis by blast
qed

section \<open>Pointer-up and pointer-leave\<close>

lemma handleCombinedMouseUp_idle:
  "dragging (handleCombinedMouseUp (Some c) v) = None \<and>
   \<not> isPanning (handleCombinedMouseUp (Some c) v) \<and>
   tooltip (handleCombinedMouseUp (Some c) v) = tooltip_hidden"
  by (simp add: handleCombinedMouseUp_def handleMouseUp_def handlePanEnd_def Let_def)

lemma handleMouseLeave_drag_and_tooltip:
  "dragging (handleMouseLeave (Some c) v) = None \<and>
   tooltip (handleMouseLeave (Some c) v) = tooltip_hidden"
  by (simp add: handleMouseLeave_def)

lemma handleMouseLeave_isPanning:
  "isPanning (handleMouseLeave ch v) = isPanning v \<and>
   panStartX (handleMouseLeave ch v) = panStartX v"
  by (cases ch) (simp_all add: handleMouseLeave_def)

lemma example_pan_start:
  "dispatch (replicate 500 0) (MouseDown (Some example_chart) \<lparr>clientX = 100, clientY = 0\<rparr>)
     (example_app, initialView)
   = (example_app,
      initialView\<lparr>isPanning := True, panStartX := 100, cursor := Cursor_grabbing\<rparr>)"
  by (simp add: handleCombinedMouseDown_def handleMouseDown_def handlePanStart_def
      getClosestAnnotation_def example_chart_def example_app_def)

lemma example_pan_leave:
  "dispatch (replicate 500 0) (MouseLeave (Some example_chart))
     (example_app,
      initialView\<lparr>isPanning := True, panStartX := 100, cursor := Cursor_grabbing\<rparr>)
   = (example_app, initialView\<lparr>isPanning := True, panStartX := 100\<rparr>)"
  by (simp add: handleMouseLeave_def initialView_def)

lemma example_pan_after_leave:
  "panX (fst (dispatch (replicate 500 0)
           (MouseMove (Some example_chart) \<lparr>clientX = 0, clientY = 0\<rparr>)
           (example_app, initialView\<lparr>isPanning := True, panStartX := 100\<rparr>))) = 3 / 5"
  by (simp add: handleCombinedMouseMove_def handleMouseMove_def handlePanMove_def
      getClosestAnnotation_def example_chart_def example_app_def initialView_def
      handleInteractivePan_def Math_ceil_def Math_floor_def Let_def)

text \<open>
  C2. A pan session survives the pointer leaving the chart. On the example, a
  pointer-down at pixel \<open>100\<close> (index \<open>150\<close>, no marker within \<open>10\<close>) starts a pan session;
  the pointer-leave that follows clears the drag target and the tooltip and leaves
  \<open>isPanning\<close> set; a later pointer-move at pixel \<open>0\<close>, with no button held, then moves the
  pan from \<open>1/2\<close> to \<open>3/5\<close>. The same session is ended by a pointer-up.
\<close>

theorem mouse_leave_keeps_pan_session:
  "(let s1 = dispatch (replicate 500 0)
               (MouseDown (Some example_chart) \<lparr>clientX = 100, clientY = 0\<rparr>)
               (example_app, initialView);
        s2 = dispatch (replicate 500 0) (MouseLeave (Some example_chart)) s1;
        s3 = dispatch (replicate 500 0)
               (MouseMove (Some example_chart) \<lparr>clientX = 0, clientY = 0\<rparr>) s2;
        s2' = dispatch (replicate 500 0) (MouseUp (Some example_chart)) s1
    in isPanning (snd s1) \<and> dragging (snd s1) = None \<and>
       isPanning (snd s2) \<and> dragging (snd s2) = None \<and>
       tooltip (snd s2) = tooltip_hidden \<and>
       panX (fst s2) = 1 / 2 \<and> panX (fst s3) = 3 / 5 \<and>
       \<not> isPanning (snd s2'))"
proof -
  have up: "\<not> isPanning (snd (dispatch (replicate 500 0) (MouseUp (Some example_chart))
      (example_app,
       initialView\<lparr>isPanning := True, panStartX := 100, cursor := Cursor_grabbing\<rparr>)))"
    by (simp add: handleCombinedMouseUp_idle)
  have p: "panX example_app = 1 / 2" by (simp add: example_app_def)
  show ?thesis
    unfolding Let_def example_pan_start example_pan_leave
    using example_pan_after_leave up p by (simp add: initialView_def)
qed

section \<open>Marker drags keep the markers in range\<close>

lemma clamp_round_valid:
  assumes "1 \<le> n"
  shows "validIndex n (max 0 (min (real n - 1) (Math_round x)))"
proof -
  define k where "k = max 0 (min (int n - 1) \<lfloor>x + 1 / 2\<rfloor>)"
  have "real n - 1 = of_int (int n - 1)" by simp
  then have eq: "max 0 (min (real n - 1) (Math_round x)) = of_int k"
    by (simp only: Math_round_def k_def of_int_max of_int_min of_int_0)
  have "0 \<le> k" by (simp add: k_def)
  moreover have "k \<le> int n - 1" using assms by (simp add: k_def)
  ultimately have "0 \<le> (of_int k :: real) \<and> (of_int k :: real) \<le> real n - 1"
    by (simp add: of_int_le_iff [symmetric] del: of_int_le_iff)
  then show ?thesis by (simp add: validIndex_def eq)
qed

lemma handleCurrentPositionDrag_valid:
  assumes "1 \<le> length (data1 a)" and "markersValid a"
  shows "markersValid (handleCurrentPositionDrag a x)"
  using assms clamp_round_valid [OF assms(1), of x]
  by (simp add: markersValid_def handleCurrentPositionDrag_def)

lemma drag_map_valid:
  assumes "validIndex n c" and "list_all (\<lambda>an. validIndex n (value_ann an)) xs"
  shows "list_all (\<lambda>an. validIndex n (value_ann an))
           (map (\<lambda>an. if id_ann an = i then an\<lparr>value_ann := c\<rparr> else an) xs)"
  using assms by (induction xs) simp_all

lemma drag_map_dragged_valid:
  assumes "validIndex n c"
  shows "list_all (\<lambda>an. id_ann an \<noteq> i \<or> validIndex n (value_ann an))
           (map (\<lambda>an. if id_ann an = i then an\<lparr>value_ann := c\<rparr> else an) xs)"
  using assms by (induction xs) simp_all

lemma handleAnnotationDrag_valid:
  assumes "1 \<le> length (data1 a)" and "markersValid a"
  shows "markersValid (handleAnnotationDrag a i x)"
proof -
  have c: "validIndex (length (data1 a)) (currentPosition a)"
    and l: "list_all (\<lambda>an. validIndex (length (data1 a)) (value_ann an)) (annotations a)"
    using assms(2) by (simp_all add: markersValid_def)
  from drag_map_valid [OF clamp_round_valid [OF assms(1), of x] l, of i] c
  show ?thesis by (simp add: markersValid_def handleAnnotationDrag_def)
qed

lemma handleInteractivePan_frame:
  "data1 (handleInteractivePan a x) = data1 a \<and>
   annotations (handleInteractivePan a x) = annotations a \<and>
   currentPosition (handleInteractivePan a x) = currentPosition a"
  by (simp add: handleInteractivePan_def Let_def)

lemma handleInteractivePan_valid:
  "markersValid (handleInteractivePan a x) = markersValid a"
  by (simp add: markersValid_def handleInteractivePan_frame)

lemma handleMouseMove_data1:
  "data1 (fst (handleMouseMove ch d ev s)) = data1 (fst s)"
  by (simp add: handleMouseMove_def Let_def handleCurrentPositionDrag_def
      handleAnnotationDrag_def split: option.split)

lemma handleMouseMove_valid:
  assumes "1 \<le> length (data1 (fst s))" and "markersValid (fst s)"
  shows "markersValid (fst (handleMouseMove ch d ev s))"
  using assms
  by (simp add: handleMouseMove_def Let_def handleCurrentPositionDrag_valid
      handleAnnotationDrag_valid split: option.split)

lemma handlePanMove_data1:
  "data1 (fst (handlePanMove ch d ev s)) = data1 (fst s)"
  by (simp add: handlePanMove_def Let_def handleInteractivePan_frame split: option.split)

lemma handlePanMove_valid:
  "markersValid (fst (handlePanMove ch d ev s)) = markersValid (fst s)"
  by (simp add: handlePanMove_def Let_def handleInteractivePan_valid split: option.split)

lemma handleCombinedMouseMove_valid:
  assumes "1 \<le> length (data1 (fst s))" and "markersValid (fst s)"
  shows "1 \<le> length (data1 (fst (handleCombinedMouseMove ch d ev s))) \<and>
         markersValid (fst (handleCombinedMouseMove ch d ev s))"
  using assms
  by (simp add: handleCombinedMouseMove_def handlePanMove_valid handlePanMove_data1
      handleMouseMove_data1 handleMouseMove_valid)

lemma run_moves_valid:
  assumes "1 \<le> length (data1 (fst s))" and "markersValid (fst s)"
  shows "markersValid (fst (run d (map (\<lambda>(ch, ev). MouseMove ch ev) moves) s))"
  using assms
proof (induction moves arbitrary: s)
  case Nil
  then show ?case by simp
next
  case (Cons m moves)
  obtain ch ev where m: "m = (ch, ev)" by (cases m)
  from handleCombinedMouseMove_valid [OF Cons.prems, of ch d ev]
  have "markersValid (fst (run d (map (\<lambda>(ch, ev). MouseMove ch ev) moves)
          (handleCombinedMouseMove ch d ev s)))"
    by (intro Cons.IH) simp_all
  then show ?case by (simp add: m)
qed


text \<open>
  C3. In a state over at least one sample whose markers are valid (integers of
  \<open>[0, N - 1]\<close>), any sequence of pointer-move events, whatever the gesture state, the
  charts and the data coordinates the pixels resolve to, leaves the current position and
  every annotation valid: both update paths round the incoming value and clamp it to
  \<open>[0, N - 1]\<close> before storing, so the value stored for the current position, and for
  every annotation of the dragged identifier, is valid whatever real value comes in.
\<close>

theorem drag_moves_keep_markers_valid:
  assumes "1 \<le> length (data1 a)" and "markersValid a"
  shows "markersValid (fst (run d (map (\<lambda>(ch, ev). MouseMove ch ev) moves) (a, v))) \<and>
         validIndex (length (data1 a)) (currentPosition (handleCurrentPositionDrag a x)) \<and>
         list_all (\<lambda>an. id_ann an \<noteq> i \<or> validIndex (length (data1 a)) (value_ann an))
           (annotations (handleAnnotationDrag a i x))"
proof -
  have r: "markersValid (fst (run d (map (\<lambda>(ch, ev). MouseMove ch ev) moves) (a, v)))"
    using assms by (intro run_moves_valid) simp_all
  have c: "validIndex (length (data1 a)) (currentPosition (handleCurrentPositionDrag a x))"
    using clamp_round_valid [OF assms(1), of x] by (simp add: handleCurrentPositionDrag_def)
  have n: "list_all (\<lambda>an. id_ann an \<noteq> i \<or> validIndex (length (data1 a)) (value_ann an))
           (annotations (handleAnnotationDrag a i x))"
    using drag_map_dragged_valid [OF clamp_round_valid [OF assms(1), of x], of i "annotations a"]
    by (simp add: handleAnnotationDrag_def)
  from r c n show ?thesis by blast
qed


theorem drag_moves_keep_markers_valid_witness:
  "markersValid
     (fst (run (replicate 500 0)
        (map (\<lambda>(ch, ev). MouseMove ch ev)
           [(Some example_chart, \<lparr>clientX = - 100000, clientY = 0\<rparr>),
            (Some example_chart, \<lparr>clientX = 100000, clientY = 0\<rparr>)])
        (example_app,
         initialView\<lparr>dragging :=
           Some \<lparr>type_c = Current_type, id_c = ''currentPosition'',
                  name_c = Current_Position_name, position_c = 250, value_c = 0\<rparr>\<rparr>))) \<and>
   currentPosition
     (fst (run (replicate 500 0)
        (map (\<lambda>(ch, ev). MouseMove ch ev)
           [(Some example_chart, \<lparr>clientX = - 100000, clientY = 0\<rparr>),
            (Some example_chart, \<lparr>clientX = 100000, clientY = 0\<rparr>)])
        (example_app,
         initialView\<lparr>dragging :=
           Some \<lparr>type_c = Current_type, id_c = ''currentPosition'',
                  name_c = Current_Position_name, position_c = 250, value_c = 0\<rparr>\<rparr>)))
     = 499 \<and>
   validIndex (length (data1 example_app))
     (currentPosition (handleCurrentPositionDrag example_app (- 1000000))) \<and>
   currentPosition (handleCurrentPositionDrag example_app (- 1000000)) = 0 \<and>
   map value_ann (annotations (handleAnnotationDrag example_app ''annotation-1'' 1000000.4))
     = [499, 305]"
proof -
  have h1: "1 \<le> length (data1 example_app)" by (simp add: example_app_def)
  have h2: "markersValid example_app"
    by (simp add: markersValid_def validIndex_def example_app_def)
  note t = drag_moves_keep_markers_valid [OF h1 h2, of "replicate 500 0"
      "[(Some example_chart, \<lparr>clientX = - 100000, clientY = 0\<rparr>),
        (Some example_chart, \<lparr>clientX = 100000, clientY = 0\<rparr>)]"
      "initialView\<lparr>dragging :=
           Some \<lparr>type_c = Current_type, id_c = ''currentPosition'',
                  name_c = Current_Position_name, position_c = 250, value_c = 0\<rparr>\<rparr>"
      "- 1000000" "''annotation-1''"]
  have e1: "currentPosition
     (fst (run (replicate 500 0)
        (map (\<lambda>(ch, ev). MouseMove ch ev)
           [(Some example_chart, \<lparr>clientX = - 100000, clientY = 0\<rparr>),
            (Some example_chart, \<lparr>clientX = 100000, clientY = 0\<rparr>)])
        (example_app,
         initialView\<lparr>dragging :=
           Some \<lparr>type_c = Current_type, id_c = ''currentPosition'',
                  name_c = Current_Position_name, position_c = 250, value_c = 0\<rparr>\<rparr>)))
     = 499"
    by (simp add: handleCombinedMouseMove_def handleMouseMove_def handlePanMove_def
        handleCurrentPositionDrag_def Math_round_def example_chart_def example_app_def
        initialView_def Let_def)
  have e2: "currentPosition (handleCurrentPositionDrag example_app (- 1000000)) = 0"
    by (simp add: handleCurrentPositionDrag_def Math_round_def example_app_def)
  have e3: "map value_ann
       (annotations (handleAnnotationDrag example_app ''annotation-1'' 1000000.4))
     = [499, 305]"
    by (simp add: handleAnnotationDrag_def Math_round_def example_app_def)
  from t e1 e2 e3 show ?thesis by blast
qed

end
